theory Spec2Isabelle
  imports Complex_Main
begin

section \<open>Python floats\<close>

text \<open>
  The calculator of \<^verbatim>\<open>sprinkler_design_app.py\<close> works on Python floats, and the
  application hands it \<^verbatim>\<open>float(text)\<close> of each entry, which also parses
  \<^verbatim>\<open>inf\<close> and \<^verbatim>\<open>nan\<close>. A float is a real number, one of the two infinities, or
  NaN. Arithmetic on finite values is exact (rounding and overflow are outside the model);
  on the other values it follows IEEE 754: NaN is absorbing, \<open>inf - inf\<close>, \<open>0 * inf\<close>
  and \<open>inf / inf\<close> are NaN, a finite value over an infinity is 0.
\<close>

datatype pyfloat = Finite (the_real: real) | PosInf | NegInf | NaN

definition signed_inf :: "real \<Rightarrow> pyfloat" where
  "signed_inf s = (if s = 0 then NaN else if 0 < s then PosInf else NegInf)"

fun fl_neg :: "pyfloat \<Rightarrow> pyfloat" where
  "fl_neg (Finite a) = Finite (- a)"
| "fl_neg PosInf = NegInf"
| "fl_neg NegInf = PosInf"
| "fl_neg NaN = NaN"

fun fl_add :: "pyfloat \<Rightarrow> pyfloat \<Rightarrow> pyfloat" where
  "fl_add (Finite a) (Finite b) = Finite (a + b)"
| "fl_add NaN b = NaN"
| "fl_add a NaN = NaN"
| "fl_add PosInf NegInf = NaN"
| "fl_add NegInf PosInf = NaN"
| "fl_add PosInf b = PosInf"
| "fl_add NegInf b = NegInf"
| "fl_add a PosInf = PosInf"
| "fl_add a NegInf = NegInf"

fun fl_mul :: "pyfloat \<Rightarrow> pyfloat \<Rightarrow> pyfloat" where
  "fl_mul (Finite a) (Finite b) = Finite (a * b)"
| "fl_mul NaN b = NaN"
| "fl_mul a NaN = NaN"
| "fl_mul (Finite a) PosInf = signed_inf a"
| "fl_mul (Finite a) NegInf = signed_inf (- a)"
| "fl_mul PosInf (Finite b) = signed_inf b"
| "fl_mul NegInf (Finite b) = signed_inf (- b)"
| "fl_mul PosInf PosInf = PosInf"
| "fl_mul PosInf NegInf = NegInf"
| "fl_mul NegInf PosInf = NegInf"
| "fl_mul NegInf NegInf = PosInf"

text \<open>The quotient by a divisor that is not zero; \<open>py_truediv\<close> below checks for zero first.\<close>

fun fl_div :: "pyfloat \<Rightarrow> pyfloat \<Rightarrow> pyfloat" where
  "fl_div (Finite a) (Finite b) = Finite (a / b)"
| "fl_div NaN b = NaN"
| "fl_div a NaN = NaN"
| "fl_div (Finite a) PosInf = Finite 0"
| "fl_div (Finite a) NegInf = Finite 0"
| "fl_div PosInf (Finite b) = signed_inf b"
| "fl_div NegInf (Finite b) = signed_inf (- b)"
| "fl_div PosInf b = NaN"
| "fl_div NegInf b = NaN"

instantiation pyfloat :: "{plus, minus, uminus, times, inverse}"
begin

definition plus_pyfloat :: "pyfloat \<Rightarrow> pyfloat \<Rightarrow> pyfloat" where
  "plus_pyfloat a b = fl_add a b"

definition uminus_pyfloat :: "pyfloat \<Rightarrow> pyfloat" where
  "uminus_pyfloat a = fl_neg a"

definition minus_pyfloat :: "pyfloat \<Rightarrow> pyfloat \<Rightarrow> pyfloat" where
  "minus_pyfloat a b = fl_add a (fl_neg b)"

definition times_pyfloat :: "pyfloat \<Rightarrow> pyfloat \<Rightarrow> pyfloat" where
  "times_pyfloat a b = fl_mul a b"

definition divide_pyfloat :: "pyfloat \<Rightarrow> pyfloat \<Rightarrow> pyfloat" where
  "divide_pyfloat a b = fl_div a b"

definition inverse_pyfloat :: "pyfloat \<Rightarrow> pyfloat" where
  "inverse_pyfloat a = fl_div (Finite 1) a"

instance ..

end

section \<open>Python exceptions\<close>

text \<open>
  What the body of the calculator can raise: \<^verbatim>\<open>KeyError\<close> from a missing dictionary key,
  \<^verbatim>\<open>ZeroDivisionError\<close> from a true division, and from \<^verbatim>\<open>int()\<close> an
  \<^verbatim>\<open>OverflowError\<close> on an infinity and a \<^verbatim>\<open>ValueError\<close> on NaN. All four are
  subclasses of \<^verbatim>\<open>Exception\<close>. \<^verbatim>\<open>KeyboardInterrupt\<close> stands for the classes that derive
  from \<^verbatim>\<open>BaseException\<close> only, which an \<^verbatim>\<open>except Exception\<close> clause lets through.
\<close>

datatype py_error =
    KeyError string
  | ZeroDivisionError
  | OverflowError
  | ValueError
  | KeyboardInterrupt

fun isinstance_Exception :: "py_error \<Rightarrow> bool" where
  "isinstance_Exception (KeyError k) = True"
| "isinstance_Exception ZeroDivisionError = True"
| "isinstance_Exception OverflowError = True"
| "isinstance_Exception ValueError = True"
| "isinstance_Exception KeyboardInterrupt = False"

text \<open>\<^verbatim>\<open>str(e)\<close>: the key's repr for a KeyError, the interpreter's message otherwise.\<close>

fun str_error :: "py_error \<Rightarrow> string" where
  "str_error (KeyError k) = CHR 0x27 # k @ [CHR 0x27]"
| "str_error ZeroDivisionError = ''float division by zero''"
| "str_error OverflowError = ''cannot convert float infinity to integer''"
| "str_error ValueError = ''cannot convert float NaN to integer''"
| "str_error KeyboardInterrupt = []"

definition bind_sum :: "'e + 'a \<Rightarrow> ('a \<Rightarrow> 'e + 'b) \<Rightarrow> 'e + 'b" where
  "bind_sum m f = (case m of Inl e \<Rightarrow> Inl e | Inr x \<Rightarrow> f x)"

text \<open>\<^verbatim>\<open>inputs[k]\<close> on a dict.\<close>

definition getitem :: "(string \<rightharpoonup> pyfloat) \<Rightarrow> string \<Rightarrow> py_error + pyfloat" where
  "getitem d k = (case d k of None \<Rightarrow> Inl (KeyError k) | Some v \<Rightarrow> Inr v)"

text \<open>\<^verbatim>\<open>a / b\<close> on floats: a zero divisor raises, whatever the dividend.\<close>

definition py_truediv :: "pyfloat \<Rightarrow> pyfloat \<Rightarrow> py_error + pyfloat" where
  "py_truediv a b = (if b = Finite 0 then Inl ZeroDivisionError else Inr (a / b))"

text \<open>\<^verbatim>\<open>int(x)\<close> on a float truncates towards zero, and raises on an infinity and on NaN.\<close>

definition truncate_real :: "real \<Rightarrow> int" where
  "truncate_real x = (if 0 \<le> x then \<lfloor>x\<rfloor> else \<lceil>x\<rceil>)"

fun py_int :: "pyfloat \<Rightarrow> py_error + int" where
  "py_int (Finite x) = Inr (truncate_real x)"
| "py_int PosInf = Inl OverflowError"
| "py_int NegInf = Inl OverflowError"
| "py_int NaN = Inl ValueError"

text \<open>\<^verbatim>\<open>float(n)\<close> of an int, as in the mixed operations float / int.\<close>

definition float_of_int :: "int \<Rightarrow> pyfloat" where
  "float_of_int n = Finite (of_int n)"

text \<open>\<^verbatim>\<open>abs(x - c) <= tol\<close> for a float x: false on NaN and on the infinities.\<close>

definition within_tol :: "pyfloat \<Rightarrow> real \<Rightarrow> real \<Rightarrow> bool" where
  "within_tol x c tol = (case x of Finite v \<Rightarrow> \<bar>v - c\<bar> \<le> tol | PosInf \<Rightarrow> False
     | NegInf \<Rightarrow> False | NaN \<Rightarrow> False)"

section \<open>The results dictionary\<close>

text \<open>
  The dictionary returned on success has a fixed set of 26 keys; it is a record with one
  field per key, under the key's name. The system-curve table holds float literals, kept
  as the reals they denote.
\<close>

record results =
  A_total_m2 :: pyfloat
  ET_DESIGN_MM_DAY :: pyfloat
  D_gross_m_day :: pyfloat
  Q_total_GPM :: pyfloat
  V_pump_m3_day :: pyfloat
  Q_total_m3_s :: pyfloat
  Q_total_L_s :: pyfloat
  V_crop_m3_day :: pyfloat
  Q_total_m3_hr :: pyfloat
  N_sprinkler_total :: int
  N_zones :: int
  N_spr_zone :: int
  Q_zone_GPM :: pyfloat
  qs_L_s :: pyfloat
  H_op_m :: pyfloat
  H_op_ft :: pyfloat
  H_end_m :: pyfloat
  H_lat_loss_m :: pyfloat
  H_sub_loss_m :: pyfloat
  H_mainline_loss_m :: pyfloat
  H_fittings_loss_m :: pyfloat
  BHP :: pyfloat
  system_curve_points :: "(real \<times> real) list"
  L_zone_EW :: pyfloat
  L_zone_NS :: pyfloat
  h_f_80mm_lat :: pyfloat

text \<open>
  What the function hands back: the results dictionary, or the dictionary with the single
  key \<^verbatim>\<open>"error"\<close> and a message.
\<close>

datatype returned = ResultsDict (the_results: results) | ErrorDict (the_message: string)

section \<open>The calculator\<close>

text \<open>
  \<open>design_body\<close> is the body of the \<^verbatim>\<open>try\<close> block of
  \<^verbatim>\<open>compute_irrigation_design\<close>, statement by statement: the six dictionary reads with
  \<^verbatim>\<open>int()\<close> of the zone count between the fifth and the sixth, then the arithmetic in
  the source's order, each division by a variable in its place so that the first statement
  that raises decides the outcome. The divisions by literals cannot raise.
\<close>

definition design_body :: "(string \<rightharpoonup> pyfloat) \<Rightarrow> py_error + results" where
  "design_body inputs =
    bind_sum (getitem inputs ''Field Length EW (m)'') (\<lambda>L_EW.
    bind_sum (getitem inputs ''Field Width NS (m)'') (\<lambda>W_NS.
    bind_sum (getitem inputs ''Design Crop ET (mm/day)'') (\<lambda>ET_DESIGN.
    bind_sum (getitem inputs ''Evaporation Loss (%)'') (\<lambda>evap_pct.
    let EVAP_LOSS = evap_pct / Finite 100 in
    bind_sum (getitem inputs ''Number of Zones (N_EW x N_NS)'') (\<lambda>zones_raw.
    bind_sum (py_int zones_raw) (\<lambda>N_zones'.
    bind_sum (getitem inputs ''End of Lateral Pressure (kPa)'') (\<lambda>P_end_lateral_kPa.
    let H_MAINLINE_LOSS_M = Finite 2.574;
        H_FITTINGS_LOSS_M = Finite 4.0;
        H_lat_loss = Finite 0.795;
        H_sub_loss = Finite 0.642;
        A_total = L_EW * W_NS in
    bind_sum (py_truediv (ET_DESIGN / Finite 1000) (Finite 1 - EVAP_LOSS)) (\<lambda>D_gross.
    let V_crop = A_total * (ET_DESIGN / Finite 1000) in
    bind_sum (py_truediv V_crop (Finite 1 - EVAP_LOSS)) (\<lambda>V_pump.
    let Q_total_m3_s' = V_pump / Finite (24 * 3600);
        Q_total_GPM' = Q_total_m3_s' * Finite 15850.323;
        N_spr_zone' = 33 * 41 in
    bind_sum (py_truediv Q_total_GPM' (float_of_int N_zones')) (\<lambda>Q_zone_GPM'.
    let Q_zone_L_s = Q_zone_GPM' * Finite (3.78541 / 60);
        qs = Q_zone_L_s / float_of_int N_spr_zone';
        H_end = P_end_lateral_kPa / Finite 9.806;
        H_op = H_end + H_lat_loss + H_sub_loss + H_MAINLINE_LOSS_M + H_FITTINGS_LOSS_M;
        H_op_ft' = H_op * Finite 3.28084;
        curve = [(125.08, 51.74), (156.35, 60.73), (187.62, 72.22)];
        BHP' = (Q_zone_GPM' * H_op_ft') / Finite (3960 * 0.70)
    in Inr \<lparr>
        A_total_m2 = A_total,
        ET_DESIGN_MM_DAY = ET_DESIGN,
        D_gross_m_day = D_gross * Finite 1000,
        Q_total_GPM = Q_total_GPM',
        V_pump_m3_day = V_pump,
        Q_total_m3_s = Q_total_m3_s',
        Q_total_L_s = Q_total_m3_s' * Finite 1000,
        V_crop_m3_day = V_crop,
        Q_total_m3_hr = V_pump / Finite 24,
        N_sprinkler_total = N_spr_zone' * N_zones',
        N_zones = N_zones',
        N_spr_zone = N_spr_zone',
        Q_zone_GPM = Q_zone_GPM',
        qs_L_s = qs,
        H_op_m = H_op,
        H_op_ft = H_op_ft',
        H_end_m = H_end,
        H_lat_loss_m = H_lat_loss,
        H_sub_loss_m = H_sub_loss,
        H_mainline_loss_m = H_MAINLINE_LOSS_M,
        H_fittings_loss_m = H_FITTINGS_LOSS_M,
        BHP = BHP',
        system_curve_points = curve,
        L_zone_EW = L_EW / Finite 2,
        L_zone_NS = W_NS / Finite 2,
        h_f_80mm_lat = Finite 2.36
      \<rparr>))))))))))"

text \<open>
  The function itself. \<^verbatim>\<open>except Exception as e: return {"error": str(e)}\<close> catches what
  is an instance of \<^verbatim>\<open>Exception\<close> and returns the one-key dictionary; anything else
  the body raised would propagate to the caller, which is \<open>Inl\<close> here. A successful body's
  dictionary is returned as it is.
\<close>

definition compute_irrigation_design :: "(string \<rightharpoonup> pyfloat) \<Rightarrow> py_error + returned" where
  "compute_irrigation_design inputs =
    (case design_body inputs of
       Inr r \<Rightarrow> Inr (ResultsDict r)
     | Inl e \<Rightarrow> if isinstance_Exception e then Inr (ErrorDict (str_error e)) else Inl e)"

section \<open>The input record of the application\<close>

text \<open>
  \<^verbatim>\<open>build_inputs_column\<close> lays out nine entry fields with these default values, and
  \<^verbatim>\<open>run\<close> hands the calculator a dictionary with the float of each.
\<close>

definition labels :: "(string \<times> pyfloat) list" where
  "labels =
    [(''Field Length EW (m)'', Finite 500.0),
     (''Field Width NS (m)'', Finite 400.0),
     (''Design Crop ET (mm/day)'', Finite 15.0),
     (''Evaporation Loss (%)'', Finite 12.0),
     (''Irrigation Time (hours/day)'', Finite 24.0),
     (''Sprinkler Spacing X (m) [EW]'', Finite 6.1),
     (''Sprinkler Spacing Y (m) [NS]'', Finite 6.1),
     (''Number of Zones (N_EW x N_NS)'', Finite 4.0),
     (''End of Lateral Pressure (kPa)'', Finite 103.0)]"

definition default_inputs :: "string \<rightharpoonup> pyfloat" where
  "default_inputs = map_of labels"

text \<open>Entries typed over the defaults, for the runs the properties below are tried on.\<close>

definition one_zone_inputs :: "string \<rightharpoonup> pyfloat" where
  "one_zone_inputs = default_inputs(''Number of Zones (N_EW x N_NS)'' \<mapsto> Finite 1)"

definition full_evaporation_inputs :: "string \<rightharpoonup> pyfloat" where
  "full_evaporation_inputs = default_inputs(''Evaporation Loss (%)'' \<mapsto> Finite 100)"

definition excess_evaporation_inputs :: "string \<rightharpoonup> pyfloat" where
  "excess_evaporation_inputs = default_inputs(''Evaporation Loss (%)'' \<mapsto> Finite 150)"

definition infinite_zones_inputs :: "string \<rightharpoonup> pyfloat" where
  "infinite_zones_inputs = default_inputs(''Number of Zones (N_EW x N_NS)'' \<mapsto> PosInf)"


definition respaced_inputs :: "string \<rightharpoonup> pyfloat" where
  "respaced_inputs =
    default_inputs(''Irrigation Time (hours/day)'' \<mapsto> Finite 12,
      ''Sprinkler Spacing X (m) [EW]'' \<mapsto> Finite 3,
      ''Sprinkler Spacing Y (m) [NS]'' \<mapsto> Finite 9)"

section \<open>Symbolic execution of the calculator\<close>

lemma finite_arith [simp]:
  "Finite a + Finite b = Finite (a + b)"
  "Finite a - Finite b = Finite (a - b)"
  "Finite a * Finite b = Finite (a * b)"
  "Finite a / Finite b = Finite (a / b)"
  by (simp_all add: plus_pyfloat_def minus_pyfloat_def times_pyfloat_def divide_pyfloat_def)

lemma evaporation_divisor_zero:
  "(Finite 1 - ev / Finite 100 = Finite 0) = (ev = Finite 100)"
  by (cases ev)
    (auto simp add: minus_pyfloat_def divide_pyfloat_def signed_inf_def)

lemma zones_divisor_zero: "(float_of_int n = Finite 0) = (n = 0)"
  by (simp add: float_of_int_def)

lemma bind_sum_Inl [simp]: "bind_sum (Inl e) f = Inl e"
  by (simp add: bind_sum_def)

lemma bind_sum_Inr [simp]: "bind_sum (Inr x) f = f x"
  by (simp add: bind_sum_def)

lemma getitem_Some: "d k = Some v \<Longrightarrow> getitem d k = Inr v"
  by (simp add: getitem_def)

lemma getitem_None: "d k = None \<Longrightarrow> getitem d k = Inl (KeyError k)"
  by (simp add: getitem_def)

lemma design_body_int_raises:
  assumes "inputs ''Field Length EW (m)'' = Some L"
    and "inputs ''Field Width NS (m)'' = Some W"
    and "inputs ''Design Crop ET (mm/day)'' = Some ET"
    and "inputs ''Evaporation Loss (%)'' = Some ev"
    and "inputs ''Number of Zones (N_EW x N_NS)'' = Some nz"
    and "inputs ''End of Lateral Pressure (kPa)'' = Some P"
    and "py_int nz = Inl e"
  shows "design_body inputs = Inl e"
  using assms by (simp add: design_body_def getitem_Some Let_def)

lemma design_body_zero_division:
  assumes "inputs ''Field Length EW (m)'' = Some L"
    and "inputs ''Field Width NS (m)'' = Some W"
    and "inputs ''Design Crop ET (mm/day)'' = Some ET"
    and "inputs ''Evaporation Loss (%)'' = Some ev"
    and "inputs ''Number of Zones (N_EW x N_NS)'' = Some nz"
    and "inputs ''End of Lateral Pressure (kPa)'' = Some P"
    and "py_int nz = Inr n"
    and "ev = Finite 100 \<or> n = 0"
  shows "design_body inputs = Inl ZeroDivisionError"
  using assms
  by (auto simp add: design_body_def getitem_Some Let_def py_truediv_def
      evaporation_divisor_zero zones_divisor_zero)

lemma design_body_returns:
  assumes "inputs ''Field Length EW (m)'' = Some L"
    and "inputs ''Field Width NS (m)'' = Some W"
    and "inputs ''Design Crop ET (mm/day)'' = Some ET"
    and "inputs ''Evaporation Loss (%)'' = Some ev"
    and "inputs ''Number of Zones (N_EW x N_NS)'' = Some nz"
    and "inputs ''End of Lateral Pressure (kPa)'' = Some P"
    and "py_int nz = Inr n"
    and "ev \<noteq> Finite 100" and "n \<noteq> 0"
  shows "\<exists>r. design_body inputs = Inr r"
  using assms
  by (simp add: design_body_def getitem_Some Let_def py_truediv_def
      evaporation_divisor_zero zones_divisor_zero)

lemma design_body_run:
  assumes "inputs ''Field Length EW (m)'' = Some (Finite L)"
    and "inputs ''Field Width NS (m)'' = Some (Finite W)"
    and "inputs ''Design Crop ET (mm/day)'' = Some (Finite ET)"
    and "inputs ''Evaporation Loss (%)'' = Some (Finite ev)"
    and "inputs ''Number of Zones (N_EW x N_NS)'' = Some (Finite nz)"
    and "inputs ''End of Lateral Pressure (kPa)'' = Some (Finite P)"
    and "ev \<noteq> 100" and "truncate_real nz \<noteq> 0"
  shows "\<exists>r. design_body inputs = Inr r
    \<and> A_total_m2 r = Finite (L * W)
    \<and> V_crop_m3_day r = Finite (L * W * (ET / 1000))
    \<and> V_pump_m3_day r = Finite (L * W * (ET / 1000) / (1 - ev / 100))
    \<and> Q_total_GPM r = Finite (L * W * (ET / 1000) / (1 - ev / 100) / (24 * 3600) * 15850.323)
    \<and> Q_zone_GPM r = Finite (L * W * (ET / 1000) / (1 - ev / 100) / (24 * 3600) * 15850.323
          / of_int (truncate_real nz))
    \<and> N_zones r = truncate_real nz
    \<and> N_spr_zone r = 33 * 41
    \<and> N_sprinkler_total r = 33 * 41 * truncate_real nz
    \<and> H_end_m r = Finite (P / 9.806)
    \<and> H_lat_loss_m r = Finite 0.795
    \<and> H_sub_loss_m r = Finite 0.642
    \<and> H_mainline_loss_m r = Finite 2.574
    \<and> H_fittings_loss_m r = Finite 4.0
    \<and> H_op_m r = Finite (P / 9.806 + 0.795 + 0.642 + 2.574 + 4.0)
    \<and> H_op_ft r = Finite ((P / 9.806 + 0.795 + 0.642 + 2.574 + 4.0) * 3.28084)
    \<and> BHP r = Q_zone_GPM r * H_op_ft r / Finite (3960 * 0.70)
    \<and> system_curve_points r = [(125.08, 51.74), (156.35, 60.73), (187.62, 72.22)]"
  using assms
  by (simp add: design_body_def getitem_Some Let_def py_truediv_def float_of_int_def)

lemma bind_sum_raises:
  assumes "bind_sum m f = Inl e"
    and "\<And>e'. m = Inl e' \<Longrightarrow> isinstance_Exception e'"
    and "\<And>x. f x = Inl e \<Longrightarrow> isinstance_Exception e"
  shows "isinstance_Exception e"
  using assms by (cases m) auto

lemma getitem_raises: "getitem d k = Inl e \<Longrightarrow> isinstance_Exception e"
  by (auto simp add: getitem_def split: option.splits)

lemma py_int_raises: "py_int x = Inl e \<Longrightarrow> isinstance_Exception e"
  by (cases x) auto

lemma py_truediv_raises: "py_truediv a b = Inl e \<Longrightarrow> isinstance_Exception e"
  by (auto simp add: py_truediv_def split: if_splits)

lemma design_body_raises:
  assumes "design_body inputs = Inl e"
  shows "isinstance_Exception e"
  using assms unfolding design_body_def Let_def
  by (elim bind_sum_raises getitem_raises py_int_raises py_truediv_raises) simp

lemma truncate_real_ge_1: "1 \<le> x \<Longrightarrow> 1 \<le> truncate_real x"
  by (simp add: truncate_real_def le_floor_iff)

lemma truncate_real_of_int: "truncate_real (of_int n) = n"
  by (simp add: truncate_real_def)

lemma compute_of_body_Inr:
  "design_body inputs = Inr r \<Longrightarrow> compute_irrigation_design inputs = Inr (ResultsDict r)"
  by (simp add: compute_irrigation_design_def)

lemma compute_of_body_Inl:
  "design_body inputs = Inl e \<Longrightarrow> isinstance_Exception e \<Longrightarrow>
    compute_irrigation_design inputs = Inr (ErrorDict (str_error e))"
  by (simp add: compute_irrigation_design_def)

lemma default_inputs_fields:
  "default_inputs ''Field Length EW (m)'' = Some (Finite 500)"
  "default_inputs ''Field Width NS (m)'' = Some (Finite 400)"
  "default_inputs ''Design Crop ET (mm/day)'' = Some (Finite 15)"
  "default_inputs ''Evaporation Loss (%)'' = Some (Finite 12)"
  "default_inputs ''Number of Zones (N_EW x N_NS)'' = Some (Finite 4)"
  "default_inputs ''End of Lateral Pressure (kPa)'' = Some (Finite 103)"
  by (simp_all add: default_inputs_def labels_def)

lemma one_zone_fields:
  "one_zone_inputs ''Field Length EW (m)'' = Some (Finite 500)"
  "one_zone_inputs ''Field Width NS (m)'' = Some (Finite 400)"
  "one_zone_inputs ''Design Crop ET (mm/day)'' = Some (Finite 15)"
  "one_zone_inputs ''Evaporation Loss (%)'' = Some (Finite 12)"
  "one_zone_inputs ''Number of Zones (N_EW x N_NS)'' = Some (Finite 1)"
  "one_zone_inputs ''End of Lateral Pressure (kPa)'' = Some (Finite 103)"
  by (simp_all add: one_zone_inputs_def default_inputs_def labels_def)

lemma full_evaporation_fields:
  "full_evaporation_inputs ''Field Length EW (m)'' = Some (Finite 500)"
  "full_evaporation_inputs ''Field Width NS (m)'' = Some (Finite 400)"
  "full_evaporation_inputs ''Design Crop ET (mm/day)'' = Some (Finite 15)"
  "full_evaporation_inputs ''Evaporation Loss (%)'' = Some (Finite 100)"
  "full_evaporation_inputs ''Number of Zones (N_EW x N_NS)'' = Some (Finite 4)"
  "full_evaporation_inputs ''End of Lateral Pressure (kPa)'' = Some (Finite 103)"
  by (simp_all add: full_evaporation_inputs_def default_inputs_def labels_def)

lemma excess_evaporation_fields:
  "excess_evaporation_inputs ''Field Length EW (m)'' = Some (Finite 500)"
  "excess_evaporation_inputs ''Field Width NS (m)'' = Some (Finite 400)"
  "excess_evaporation_inputs ''Design Crop ET (mm/day)'' = Some (Finite 15)"
  "excess_evaporation_inputs ''Evaporation Loss (%)'' = Some (Finite 150)"
  "excess_evaporation_inputs ''Number of Zones (N_EW x N_NS)'' = Some (Finite 4)"
  "excess_evaporation_inputs ''End of Lateral Pressure (kPa)'' = Some (Finite 103)"
  by (simp_all add: excess_evaporation_inputs_def default_inputs_def labels_def)

lemma infinite_zones_fields:
  "infinite_zones_inputs ''Field Length EW (m)'' = Some (Finite 500)"
  "infinite_zones_inputs ''Field Width NS (m)'' = Some (Finite 400)"
  "infinite_zones_inputs ''Design Crop ET (mm/day)'' = Some (Finite 15)"
  "infinite_zones_inputs ''Evaporation Loss (%)'' = Some (Finite 12)"
  "infinite_zones_inputs ''Number of Zones (N_EW x N_NS)'' = Some PosInf"
  "infinite_zones_inputs ''End of Lateral Pressure (kPa)'' = Some (Finite 103)"
  by (simp_all add: infinite_zones_inputs_def default_inputs_def labels_def)


text \<open>
  The run on the application's default entries, with exact values.
\<close>

lemma default_run:
  "\<exists>r. compute_irrigation_design default_inputs = Inr (ResultsDict r)
    \<and> A_total_m2 r = Finite 200000
    \<and> V_crop_m3_day r = Finite 3000
    \<and> V_pump_m3_day r = Finite (37500 / 11)
    \<and> Q_total_GPM r = Finite (37500 / 11 / 86400 * 15850.323)
    \<and> Q_zone_GPM r = Finite (37500 / 11 / 86400 * 15850.323 / 4)
    \<and> H_end_m r = Finite (103 / 9.806)
    \<and> H_op_m r = Finite (103 / 9.806 + 0.795 + 0.642 + 2.574 + 4.0)
    \<and> H_op_ft r = Finite ((103 / 9.806 + 0.795 + 0.642 + 2.574 + 4.0) * 3.28084)
    \<and> BHP r = Q_zone_GPM r * H_op_ft r / Finite (3960 * 0.70)"
proof -
  have ev: "(12::real) \<noteq> 100" by simp
  have t: "truncate_real 4 = 4" by (simp add: truncate_real_def)
  then have nz: "truncate_real 4 \<noteq> 0" by simp
  from design_body_run [OF default_inputs_fields ev nz]
  obtain r where r: "design_body default_inputs = Inr r"
    "A_total_m2 r = Finite (500 * 400)"
    "V_crop_m3_day r = Finite (500 * 400 * (15 / 1000))"
    "V_pump_m3_day r = Finite (500 * 400 * (15 / 1000) / (1 - 12 / 100))"
    "Q_total_GPM r = Finite (500 * 400 * (15 / 1000) / (1 - 12 / 100) / (24 * 3600) * 15850.323)"
    "Q_zone_GPM r = Finite (500 * 400 * (15 / 1000) / (1 - 12 / 100) / (24 * 3600) * 15850.323
          / of_int (truncate_real 4))"
    "H_end_m r = Finite (103 / 9.806)"
    "H_op_m r = Finite (103 / 9.806 + 0.795 + 0.642 + 2.574 + 4.0)"
    "H_op_ft r = Finite ((103 / 9.806 + 0.795 + 0.642 + 2.574 + 4.0) * 3.28084)"
    "BHP r = Q_zone_GPM r * H_op_ft r / Finite (3960 * 0.70)"
    by blast
  have "A_total_m2 r = Finite 200000" unfolding r(2) by simp
  moreover have "V_crop_m3_day r = Finite 3000" unfolding r(3) by simp
  moreover have "V_pump_m3_day r = Finite (37500 / 11)" unfolding r(4) by simp
  moreover have "Q_total_GPM r = Finite (37500 / 11 / 86400 * 15850.323)" unfolding r(5) by simp
  moreover have "Q_zone_GPM r = Finite (37500 / 11 / 86400 * 15850.323 / 4)"
    unfolding r(6) t by simp
  ultimately show ?thesis
    using compute_of_body_Inr [OF r(1)] r(7-10) by blast
qed

section \<open>The reference design\<close>

text \<open>
  C1 (as amended). On the default entries (field 500 m by 400 m, crop ET 15 mm/day,
  evaporation loss 12 percent, 4 zones, 103 kPa at the end of the lateral) the calculator
  returns a results dictionary with total area 200000, crop volume 3000, pumped volume within
  0.01 of 3409.09, total flow within 0.05 of 625.41 gpm, zone flow within 0.05 of 156.35 gpm,
  end head within 0.01 of 10.50 m, total dynamic head within 0.05 of 60.73 ft, and a brake
  horsepower that is zone flow times head in feet over 3960 times 0.70, which is within
  0.05 of 3.43 HP.
\<close>

theorem reference_design_values:
  "\<exists>r. compute_irrigation_design default_inputs = Inr (ResultsDict r)
    \<and> A_total_m2 r = Finite 200000
    \<and> V_crop_m3_day r = Finite 3000
    \<and> within_tol (V_pump_m3_day r) 3409.09 0.01
    \<and> within_tol (Q_total_GPM r) 625.41 0.05
    \<and> within_tol (Q_zone_GPM r) 156.35 0.05
    \<and> within_tol (H_end_m r) 10.50 0.01
    \<and> within_tol (H_op_ft r) 60.73 0.05
    \<and> BHP r = Q_zone_GPM r * H_op_ft r / Finite (3960 * 0.70)
    \<and> within_tol (BHP r) 3.43 0.05"
proof -
  from default_run obtain r where
    r: "compute_irrigation_design default_inputs = Inr (ResultsDict r)"
      "A_total_m2 r = Finite 200000"
      "V_crop_m3_day r = Finite 3000"
      "V_pump_m3_day r = Finite (37500 / 11)"
      "Q_total_GPM r = Finite (37500 / 11 / 86400 * 15850.323)"
      "Q_zone_GPM r = Finite (37500 / 11 / 86400 * 15850.323 / 4)"
      "H_end_m r = Finite (103 / 9.806)"
      "H_op_ft r = Finite ((103 / 9.806 + 0.795 + 0.642 + 2.574 + 4.0) * 3.28084)"
      "BHP r = Q_zone_GPM r * H_op_ft r / Finite (3960 * 0.70)"
    by blast
  have "within_tol (V_pump_m3_day r) 3409.09 0.01"
    unfolding r(4) by (simp add: within_tol_def)
  moreover have "within_tol (Q_total_GPM r) 625.41 0.05"
    unfolding r(5) by (simp add: within_tol_def)
  moreover have "within_tol (Q_zone_GPM r) 156.35 0.05"
    unfolding r(6) by (simp add: within_tol_def)
  moreover have "within_tol (H_end_m r) 10.50 0.01"
    unfolding r(7) by (simp add: within_tol_def)
  moreover have "within_tol (H_op_ft r) 60.73 0.05"
    unfolding r(8) by (simp add: within_tol_def)
  moreover have "within_tol (BHP r) 3.43 0.05"
    unfolding r(9) r(6) r(8) by (simp add: within_tol_def)
  ultimately show ?thesis using r(1,2,3,9) by blast
qed

text \<open>
  C1 (as stated). The brake horsepower of that run is not within 0.05 of 3.02 HP: the
  formula gives about 3.43.
\<close>

theorem reference_bhp_counterexample:
  "\<not> isl (compute_irrigation_design default_inputs)
   \<and> is_ResultsDict (projr (compute_irrigation_design default_inputs))
   \<and> within_tol (BHP (the_results (projr (compute_irrigation_design default_inputs)))) 3.43 0.05
   \<and> \<not> within_tol (BHP (the_results (projr (compute_irrigation_design default_inputs)))) 3.02 0.05"
proof -
  from default_run obtain r where
    r: "compute_irrigation_design default_inputs = Inr (ResultsDict r)"
      "Q_zone_GPM r = Finite (37500 / 11 / 86400 * 15850.323 / 4)"
      "H_op_ft r = Finite ((103 / 9.806 + 0.795 + 0.642 + 2.574 + 4.0) * 3.28084)"
      "BHP r = Q_zone_GPM r * H_op_ft r / Finite (3960 * 0.70)"
    by blast
  have "within_tol (BHP r) 3.43 0.05" "\<not> within_tol (BHP r) 3.02 0.05"
    unfolding r(4) r(2) r(3) by (simp_all add: within_tol_def)
  then show ?thesis using r(1) by simp
qed

section \<open>Total dynamic head\<close>

text \<open>
  C2. For every valid input record (all fields positive, evaporation loss below 100,
  at least one zone) the calculator returns a results dictionary whose total dynamic head
  in metres is exactly end head + lateral loss + submain loss + mainline loss + fittings
  loss, with nothing else added, and the four losses are the constants 0.795, 0.642, 2.574
  and 4.0 m; all of them are finite, the end head being the pressure over 9.806.
\<close>

theorem tdh_sum_invariant:
  assumes "inputs ''Field Length EW (m)'' = Some (Finite L)"
    and "inputs ''Field Width NS (m)'' = Some (Finite W)"
    and "inputs ''Design Crop ET (mm/day)'' = Some (Finite ET)"
    and "inputs ''Evaporation Loss (%)'' = Some (Finite ev)"
    and "inputs ''Number of Zones (N_EW x N_NS)'' = Some (Finite nz)"
    and "inputs ''End of Lateral Pressure (kPa)'' = Some (Finite P)"
    and "0 < L" and "0 < W" and "0 < ET" and "0 < ev" and "ev < 100" and "1 \<le> nz" and "0 < P"
  shows "\<exists>r. compute_irrigation_design inputs = Inr (ResultsDict r)
    \<and> H_op_m r = H_end_m r + H_lat_loss_m r + H_sub_loss_m r + H_mainline_loss_m r + H_fittings_loss_m r
    \<and> H_lat_loss_m r = Finite 0.795 \<and> H_sub_loss_m r = Finite 0.642
    \<and> H_mainline_loss_m r = Finite 2.574 \<and> H_fittings_loss_m r = Finite 4.0
    \<and> H_end_m r = Finite (P / 9.806)
    \<and> H_op_m r = Finite (P / 9.806 + 0.795 + 0.642 + 2.574 + 4.0)"
proof -
  have ev: "ev \<noteq> 100" using assms(11) by simp
  have nz: "truncate_real nz \<noteq> 0" using truncate_real_ge_1 [OF assms(12)] by simp
  from design_body_run [OF assms(1-6) ev nz]
  obtain r where r: "design_body inputs = Inr r"
    "H_end_m r = Finite (P / 9.806)" "H_lat_loss_m r = Finite 0.795"
    "H_sub_loss_m r = Finite 0.642"
    "H_mainline_loss_m r = Finite 2.574" "H_fittings_loss_m r = Finite 4.0"
    "H_op_m r = Finite (P / 9.806 + 0.795 + 0.642 + 2.574 + 4.0)"
    by blast
  have "H_op_m r = H_end_m r + H_lat_loss_m r + H_sub_loss_m r + H_mainline_loss_m r + H_fittings_loss_m r"
    unfolding r(2-7) by (simp only: finite_arith)
  with r(2-7) compute_of_body_Inr [OF r(1)] show ?thesis by blast
qed

text \<open>
  The sum invariant on the default entries.
\<close>

theorem tdh_sum_invariant_witness:
  "default_inputs ''Evaporation Loss (%)'' = Some (Finite 12)
   \<and> default_inputs ''Number of Zones (N_EW x N_NS)'' = Some (Finite 4)
   \<and> (\<exists>r. compute_irrigation_design default_inputs = Inr (ResultsDict r)
    \<and> H_op_m r = H_end_m r + H_lat_loss_m r + H_sub_loss_m r + H_mainline_loss_m r + H_fittings_loss_m r
    \<and> H_lat_loss_m r = Finite 0.795 \<and> H_sub_loss_m r = Finite 0.642
    \<and> H_mainline_loss_m r = Finite 2.574 \<and> H_fittings_loss_m r = Finite 4.0
    \<and> H_end_m r = Finite (103 / 9.806)
    \<and> H_op_m r = Finite (103 / 9.806 + 0.795 + 0.642 + 2.574 + 4.0))"
proof -
  have "\<exists>r. compute_irrigation_design default_inputs = Inr (ResultsDict r)
    \<and> H_op_m r = H_end_m r + H_lat_loss_m r + H_sub_loss_m r + H_mainline_loss_m r + H_fittings_loss_m r
    \<and> H_lat_loss_m r = Finite 0.795 \<and> H_sub_loss_m r = Finite 0.642
    \<and> H_mainline_loss_m r = Finite 2.574 \<and> H_fittings_loss_m r = Finite 4.0
    \<and> H_end_m r = Finite (103 / 9.806)
    \<and> H_op_m r = Finite (103 / 9.806 + 0.795 + 0.642 + 2.574 + 4.0)"
    by (rule tdh_sum_invariant [OF default_inputs_fields]) simp_all
  with default_inputs_fields(4,5) show ?thesis by blast
qed

section \<open>System curve\<close>

text \<open>
  C3 (as amended). For every valid input record the system curve of the results is the
  fixed three-row table (125.08, 51.74), (156.35, 60.73), (187.62, 72.22) of flow in gpm and
  head in ft, one row for each of 80, 100 and 120 percent of the source document's design
  flow; it is not recomputed from the inputs.
\<close>

theorem system_curve_is_fixed_table:
  assumes "inputs ''Field Length EW (m)'' = Some (Finite L)"
    and "inputs ''Field Width NS (m)'' = Some (Finite W)"
    and "inputs ''Design Crop ET (mm/day)'' = Some (Finite ET)"
    and "inputs ''Evaporation Loss (%)'' = Some (Finite ev)"
    and "inputs ''Number of Zones (N_EW x N_NS)'' = Some (Finite nz)"
    and "inputs ''End of Lateral Pressure (kPa)'' = Some (Finite P)"
    and "0 < L" and "0 < W" and "0 < ET" and "0 < ev" and "ev < 100" and "1 \<le> nz" and "0 < P"
  shows "\<exists>r. compute_irrigation_design inputs = Inr (ResultsDict r)
    \<and> system_curve_points r = [(125.08, 51.74), (156.35, 60.73), (187.62, 72.22)]"
proof -
  have ev: "ev \<noteq> 100" using assms(11) by simp
  have nz: "truncate_real nz \<noteq> 0" using truncate_real_ge_1 [OF assms(12)] by simp
  from design_body_run [OF assms(1-6) ev nz]
  obtain r where r: "design_body inputs = Inr r"
    "system_curve_points r = [(125.08, 51.74), (156.35, 60.73), (187.62, 72.22)]"
    by blast
  with compute_of_body_Inr [OF r(1)] show ?thesis by blast
qed

text \<open>
  The table on the default entries.
\<close>

theorem system_curve_is_fixed_table_witness:
  "default_inputs ''Evaporation Loss (%)'' = Some (Finite 12)
   \<and> default_inputs ''Number of Zones (N_EW x N_NS)'' = Some (Finite 4)
   \<and> (\<exists>r. compute_irrigation_design default_inputs = Inr (ResultsDict r)
    \<and> system_curve_points r = [(125.08, 51.74), (156.35, 60.73), (187.62, 72.22)])"
proof -
  have "\<exists>r. compute_irrigation_design default_inputs = Inr (ResultsDict r)
    \<and> system_curve_points r = [(125.08, 51.74), (156.35, 60.73), (187.62, 72.22)]"
    by (rule system_curve_is_fixed_table [OF default_inputs_fields]) simp_all
  with default_inputs_fields(4,5) show ?thesis by blast
qed

text \<open>
  C3 (as stated). With one zone instead of four the design zone flow is about 625.4 gpm,
  yet the first curve point still has flow 125.08, which is not 0.8 times the zone flow.
\<close>

theorem system_curve_flow_counterexample:
  "\<not> isl (compute_irrigation_design one_zone_inputs)
   \<and> is_ResultsDict (projr (compute_irrigation_design one_zone_inputs))
   \<and> Finite (fst (hd (system_curve_points
        (the_results (projr (compute_irrigation_design one_zone_inputs))))))
     \<noteq> Finite 0.8 * Q_zone_GPM (the_results (projr (compute_irrigation_design one_zone_inputs)))"
proof -
  have ev: "(12::real) \<noteq> 100" by simp
  have t: "truncate_real 1 = 1" by (simp add: truncate_real_def)
  then have nz: "truncate_real 1 \<noteq> 0" by simp
  from design_body_run [OF one_zone_fields ev nz]
  obtain r where r: "design_body one_zone_inputs = Inr r"
    "Q_zone_GPM r = Finite (500 * 400 * (15 / 1000) / (1 - 12 / 100) / (24 * 3600) * 15850.323
          / of_int (truncate_real 1))"
    "system_curve_points r = [(125.08, 51.74), (156.35, 60.73), (187.62, 72.22)]"
    by blast
  have "Finite (fst (hd (system_curve_points r))) \<noteq> Finite 0.8 * Q_zone_GPM r"
    unfolding r(3) r(2) t by simp
  then show ?thesis using compute_of_body_Inr [OF r(1)] by simp
qed

text \<open>
  C5. For every valid input record the three system-curve points have strictly
  increasing head as the flow goes up from the 80 percent point to the 100 percent point to
  the 120 percent point.
\<close>

theorem system_curve_heads_increasing:
  assumes "inputs ''Field Length EW (m)'' = Some (Finite L)"
    and "inputs ''Field Width NS (m)'' = Some (Finite W)"
    and "inputs ''Design Crop ET (mm/day)'' = Some (Finite ET)"
    and "inputs ''Evaporation Loss (%)'' = Some (Finite ev)"
    and "inputs ''Number of Zones (N_EW x N_NS)'' = Some (Finite nz)"
    and "inputs ''End of Lateral Pressure (kPa)'' = Some (Finite P)"
    and "0 < L" and "0 < W" and "0 < ET" and "0 < ev" and "ev < 100" and "1 \<le> nz" and "0 < P"
  shows "\<exists>r. compute_irrigation_design inputs = Inr (ResultsDict r)
    \<and> length (system_curve_points r) = 3
    \<and> fst (system_curve_points r ! 0) < fst (system_curve_points r ! 1)
    \<and> fst (system_curve_points r ! 1) < fst (system_curve_points r ! 2)
    \<and> snd (system_curve_points r ! 0) < snd (system_curve_points r ! 1)
    \<and> snd (system_curve_points r ! 1) < snd (system_curve_points r ! 2)"
proof -
  have ev: "ev \<noteq> 100" using assms(11) by simp
  have nz: "truncate_real nz \<noteq> 0" using truncate_real_ge_1 [OF assms(12)] by simp
  from design_body_run [OF assms(1-6) ev nz]
  obtain r where r: "design_body inputs = Inr r"
    "system_curve_points r = [(125.08, 51.74), (156.35, 60.73), (187.62, 72.22)]"
    by blast
  have "length (system_curve_points r) = 3
    \<and> fst (system_curve_points r ! 0) < fst (system_curve_points r ! 1)
    \<and> fst (system_curve_points r ! 1) < fst (system_curve_points r ! 2)
    \<and> snd (system_curve_points r ! 0) < snd (system_curve_points r ! 1)
    \<and> snd (system_curve_points r ! 1) < snd (system_curve_points r ! 2)"
    unfolding r(2) by simp
  with compute_of_body_Inr [OF r(1)] show ?thesis by blast
qed

text \<open>
  The monotone curve on the default entries.
\<close>

theorem system_curve_heads_increasing_witness:
  "default_inputs ''Evaporation Loss (%)'' = Some (Finite 12)
   \<and> default_inputs ''Number of Zones (N_EW x N_NS)'' = Some (Finite 4)
   \<and> (\<exists>r. compute_irrigation_design default_inputs = Inr (ResultsDict r)
    \<and> length (system_curve_points r) = 3
    \<and> fst (system_curve_points r ! 0) < fst (system_curve_points r ! 1)
    \<and> fst (system_curve_points r ! 1) < fst (system_curve_points r ! 2)
    \<and> snd (system_curve_points r ! 0) < snd (system_curve_points r ! 1)
    \<and> snd (system_curve_points r ! 1) < snd (system_curve_points r ! 2))"
proof -
  have "\<exists>r. compute_irrigation_design default_inputs = Inr (ResultsDict r)
    \<and> length (system_curve_points r) = 3
    \<and> fst (system_curve_points r ! 0) < fst (system_curve_points r ! 1)
    \<and> fst (system_curve_points r ! 1) < fst (system_curve_points r ! 2)
    \<and> snd (system_curve_points r ! 0) < snd (system_curve_points r ! 1)
    \<and> snd (system_curve_points r ! 1) < snd (system_curve_points r ! 2)"
    by (rule system_curve_heads_increasing [OF default_inputs_fields]) simp_all
  with default_inputs_fields(4,5) show ?thesis by blast
qed

section \<open>Out-of-domain inputs\<close>

text \<open>
  C4 (as amended). For an input record with the six fields present, whatever floats
  they hold, infinities and NaN included, the calculator produces no results in exactly
  these cases, and then returns the error dictionary with the message of what was raised,
  which names no field: the zone count is an infinity (the OverflowError of int()); the
  zone count is NaN (the ValueError of int()); the zone count is finite and the evaporation
  loss is 100 or the zone count truncates to 0 (the ZeroDivisionError, the same message for
  either field). For every other record, an evaporation loss above 100, infinite or NaN and
  a zone count of -1 or less included, it returns a results dictionary.
\<close>

theorem zero_divisor_gives_error_dict:
  assumes "inputs ''Field Length EW (m)'' = Some L"
    and "inputs ''Field Width NS (m)'' = Some W"
    and "inputs ''Design Crop ET (mm/day)'' = Some ET"
    and "inputs ''Evaporation Loss (%)'' = Some ev"
    and "inputs ''Number of Zones (N_EW x N_NS)'' = Some nz"
    and "inputs ''End of Lateral Pressure (kPa)'' = Some P"
  shows "(compute_irrigation_design inputs = Inr (ErrorDict (str_error OverflowError)))
          = (nz = PosInf \<or> nz = NegInf)
    \<and> (compute_irrigation_design inputs = Inr (ErrorDict (str_error ValueError)))
          = (nz = NaN)
    \<and> (compute_irrigation_design inputs = Inr (ErrorDict (str_error ZeroDivisionError)))
          = (is_Finite nz \<and> (ev = Finite 100 \<or> py_int nz = Inr 0))
    \<and> (\<not> isl (compute_irrigation_design inputs)
          \<and> is_ResultsDict (projr (compute_irrigation_design inputs)))
          = (is_Finite nz \<and> ev \<noteq> Finite 100 \<and> py_int nz \<noteq> Inr 0)"
proof (cases nz)
  case (Finite z)
  then have i: "py_int nz = Inr (truncate_real z)" by simp
  show ?thesis
  proof (cases "ev = Finite 100 \<or> truncate_real z = 0")
    case True
    have "design_body inputs = Inl ZeroDivisionError"
      by (rule design_body_zero_division [OF assms i True])
    then have "compute_irrigation_design inputs = Inr (ErrorDict (str_error ZeroDivisionError))"
      by (rule compute_of_body_Inl) simp
    with True Finite show ?thesis by auto
  next
    case False
    then have ev: "ev \<noteq> Finite 100" and n: "truncate_real z \<noteq> 0" by simp_all
    from design_body_returns [OF assms i ev n]
    obtain r where "design_body inputs = Inr r" by blast
    then have "compute_irrigation_design inputs = Inr (ResultsDict r)"
      by (rule compute_of_body_Inr)
    with False Finite show ?thesis by auto
  qed
next
  case PosInf
  then have i: "py_int nz = Inl OverflowError" by simp
  have "design_body inputs = Inl OverflowError"
    by (rule design_body_int_raises [OF assms i])
  then have "compute_irrigation_design inputs = Inr (ErrorDict (str_error OverflowError))"
    by (rule compute_of_body_Inl) simp
  with PosInf show ?thesis by auto
next
  case NegInf
  then have i: "py_int nz = Inl OverflowError" by simp
  have "design_body inputs = Inl OverflowError"
    by (rule design_body_int_raises [OF assms i])
  then have "compute_irrigation_design inputs = Inr (ErrorDict (str_error OverflowError))"
    by (rule compute_of_body_Inl) simp
  with NegInf show ?thesis by auto
next
  case NaN
  then have i: "py_int nz = Inl ValueError" by simp
  have "design_body inputs = Inl ValueError"
    by (rule design_body_int_raises [OF assms i])
  then have "compute_irrigation_design inputs = Inr (ErrorDict (str_error ValueError))"
    by (rule compute_of_body_Inl) simp
  with NaN show ?thesis by auto
qed

text \<open>
  The error dictionaries at an evaporation loss of 100 percent and at an infinite zone
  count.
\<close>

theorem zero_divisor_gives_error_dict_witness:
  "full_evaporation_inputs ''Evaporation Loss (%)'' = Some (Finite 100)
   \<and> compute_irrigation_design full_evaporation_inputs
       = Inr (ErrorDict (str_error ZeroDivisionError))
   \<and> infinite_zones_inputs ''Number of Zones (N_EW x N_NS)'' = Some PosInf
   \<and> compute_irrigation_design infinite_zones_inputs
       = Inr (ErrorDict (str_error OverflowError))"
  using zero_divisor_gives_error_dict [OF full_evaporation_fields]
    zero_divisor_gives_error_dict [OF infinite_zones_fields]
    full_evaporation_fields(4) infinite_zones_fields(5)
  by simp

text \<open>
  C4 (as stated). At an evaporation loss of 150 percent nothing is refused: the
  calculator returns a results dictionary, with a pumped volume of -6000 cubic metres a day.
\<close>

theorem evaporation_150_counterexample:
  "\<not> isl (compute_irrigation_design excess_evaporation_inputs)
   \<and> is_ResultsDict (projr (compute_irrigation_design excess_evaporation_inputs))
   \<and> V_pump_m3_day (the_results (projr (compute_irrigation_design
        excess_evaporation_inputs))) = Finite (- 6000)"
proof -
  have ev: "(150::real) \<noteq> 100" by simp
  have nz: "truncate_real 4 \<noteq> 0" by (simp add: truncate_real_def)
  from design_body_run [OF excess_evaporation_fields ev nz]
  obtain r where r: "design_body excess_evaporation_inputs = Inr r"
    "V_pump_m3_day r = Finite (500 * 400 * (15 / 1000) / (1 - 150 / 100))"
    by blast
  have "V_pump_m3_day r = Finite (- 6000)" unfolding r(2) by simp
  then show ?thesis using compute_of_body_Inr [OF r(1)] by simp
qed

text \<open>
  C9. For every input dictionary, whatever floats it holds and whichever keys it has,
  the calculator returns to its caller and no exception propagates: either the body
  finished and its results dictionary is the result, or the body raised an instance of
  Exception, which the except clause catches, and the result is the error dictionary
  holding the message of what was raised. That the body raises nothing outside Exception
  is a property of its statements: dictionary reads, int() and true divisions.
\<close>

theorem compute_returns_results_or_error_dict:
  "\<not> isl (compute_irrigation_design inputs)
   \<and> ((\<exists>r. design_body inputs = Inr r
          \<and> compute_irrigation_design inputs = Inr (ResultsDict r))
      \<or> (\<exists>e. design_body inputs = Inl e \<and> isinstance_Exception e
          \<and> compute_irrigation_design inputs = Inr (ErrorDict (str_error e))))"
proof (cases "design_body inputs")
  case (Inl e)
  have "isinstance_Exception e" by (rule design_body_raises [OF Inl])
  with Inl compute_of_body_Inl [OF Inl this] show ?thesis by simp
next
  case (Inr r)
  with compute_of_body_Inr [OF Inr] show ?thesis by simp
qed

section \<open>Boundary values\<close>



section \<open>Sprinkler counts\<close>

text \<open>
  C8. For every valid input record, with a whole number n of zones, the sprinklers per
  zone are the layout constant 1353 = 33 * 41, whatever n and the spacing entries are, and
  the total sprinkler count is 1353 * n.
\<close>

theorem sprinkler_counts_fixed_layout:
  assumes "inputs ''Field Length EW (m)'' = Some (Finite L)"
    and "inputs ''Field Width NS (m)'' = Some (Finite W)"
    and "inputs ''Design Crop ET (mm/day)'' = Some (Finite ET)"
    and "inputs ''Evaporation Loss (%)'' = Some (Finite ev)"
    and "inputs ''Number of Zones (N_EW x N_NS)'' = Some (Finite (of_int n))"
    and "inputs ''End of Lateral Pressure (kPa)'' = Some (Finite P)"
    and "0 < L" and "0 < W" and "0 < ET" and "0 < ev" and "ev < 100" and "1 \<le> n" and "0 < P"
  shows "\<exists>r. compute_irrigation_design inputs = Inr (ResultsDict r)
    \<and> N_spr_zone r = 1353 \<and> N_spr_zone r = 33 * 41
    \<and> N_zones r = n
    \<and> N_sprinkler_total r = 1353 * n"
proof -
  have ev: "ev \<noteq> 100" using assms(11) by simp
  have n: "truncate_real (of_int n) = n" by (rule truncate_real_of_int)
  have nz: "truncate_real (of_int n) \<noteq> 0" using assms(12) n by simp
  from design_body_run [OF assms(1-6) ev nz]
  obtain r where r: "design_body inputs = Inr r"
    "N_zones r = truncate_real (of_int n)"
    "N_spr_zone r = 33 * 41"
    "N_sprinkler_total r = 33 * 41 * truncate_real (of_int n)"
    by blast
  have "N_spr_zone r = 1353 \<and> N_spr_zone r = 33 * 41 \<and> N_zones r = n
    \<and> N_sprinkler_total r = 1353 * n"
    unfolding r(2-4) n by simp
  with compute_of_body_Inr [OF r(1)] show ?thesis by blast
qed

text \<open>
  The counts on the default entries: 4 zones, 5412 sprinklers.
\<close>

theorem sprinkler_counts_fixed_layout_witness:
  "default_inputs ''Number of Zones (N_EW x N_NS)'' = Some (Finite (of_int 4))
   \<and> (\<exists>r. compute_irrigation_design default_inputs = Inr (ResultsDict r)
    \<and> N_spr_zone r = 1353 \<and> N_zones r = 4 \<and> N_sprinkler_total r = 5412)"
proof -
  have z: "default_inputs ''Number of Zones (N_EW x N_NS)'' = Some (Finite (of_int 4))"
    using default_inputs_fields(5) by simp
  have "\<exists>r. compute_irrigation_design default_inputs = Inr (ResultsDict r)
    \<and> N_spr_zone r = 1353 \<and> N_spr_zone r = 33 * 41
    \<and> N_zones r = 4
    \<and> N_sprinkler_total r = 1353 * 4"
    by (rule sprinkler_counts_fixed_layout [OF default_inputs_fields(1-4) z default_inputs_fields(6)])
      simp_all
  then show ?thesis using z by auto
qed

section \<open>Fields the calculator does not read\<close>

text \<open>
  C10. Two input records that differ only in the irrigation time and the two sprinkler
  spacings give the same result: the calculator reads the other six fields only.
\<close>

theorem unread_fields_do_not_matter:
  assumes "\<forall>k. k \<noteq> ''Irrigation Time (hours/day)''
              \<and> k \<noteq> ''Sprinkler Spacing X (m) [EW]''
              \<and> k \<noteq> ''Sprinkler Spacing Y (m) [NS]'' \<longrightarrow> i1 k = i2 k"
  shows "compute_irrigation_design i1 = compute_irrigation_design i2"
proof -
  have k: "i1 ''Field Length EW (m)'' = i2 ''Field Length EW (m)''"
    "i1 ''Field Width NS (m)'' = i2 ''Field Width NS (m)''"
    "i1 ''Design Crop ET (mm/day)'' = i2 ''Design Crop ET (mm/day)''"
    "i1 ''Evaporation Loss (%)'' = i2 ''Evaporation Loss (%)''"
    "i1 ''Number of Zones (N_EW x N_NS)'' = i2 ''Number of Zones (N_EW x N_NS)''"
    "i1 ''End of Lateral Pressure (kPa)'' = i2 ''End of Lateral Pressure (kPa)''"
    using assms by simp_all
  have "design_body i1 = design_body i2"
    unfolding design_body_def getitem_def k ..
  then show ?thesis by (simp add: compute_irrigation_design_def)
qed

text \<open>
  The default entries against entries with irrigation time 12 and spacings 3 and 9.
\<close>

theorem unread_fields_do_not_matter_witness:
  "default_inputs ''Irrigation Time (hours/day)'' = Some (Finite 24)
   \<and> respaced_inputs ''Irrigation Time (hours/day)'' = Some (Finite 12)
   \<and> default_inputs ''Sprinkler Spacing X (m) [EW]'' = Some (Finite 6.1)
   \<and> respaced_inputs ''Sprinkler Spacing X (m) [EW]'' = Some (Finite 3)
   \<and> default_inputs ''Sprinkler Spacing Y (m) [NS]'' = Some (Finite 6.1)
   \<and> respaced_inputs ''Sprinkler Spacing Y (m) [NS]'' = Some (Finite 9)
   \<and> compute_irrigation_design default_inputs = compute_irrigation_design respaced_inputs"
proof -
  have h: "\<forall>k. k \<noteq> ''Irrigation Time (hours/day)''
              \<and> k \<noteq> ''Sprinkler Spacing X (m) [EW]''
              \<and> k \<noteq> ''Sprinkler Spacing Y (m) [NS]'' \<longrightarrow> default_inputs k = respaced_inputs k"
    by (simp add: respaced_inputs_def)
  have "compute_irrigation_design default_inputs = compute_irrigation_design respaced_inputs"
    by (rule unread_fields_do_not_matter [OF h])
  moreover have "default_inputs ''Irrigation Time (hours/day)'' = Some (Finite 24)"
    "respaced_inputs ''Irrigation Time (hours/day)'' = Some (Finite 12)"
    "default_inputs ''Sprinkler Spacing X (m) [EW]'' = Some (Finite 6.1)"
    "respaced_inputs ''Sprinkler Spacing X (m) [EW]'' = Some (Finite 3)"
    "default_inputs ''Sprinkler Spacing Y (m) [NS]'' = Some (Finite 6.1)"
    "respaced_inputs ''Sprinkler Spacing Y (m) [NS]'' = Some (Finite 9)"
    by (simp_all add: respaced_inputs_def default_inputs_def labels_def)
  ultimately show ?thesis by blast
qed

end
